theory Spec2Isabelle
  imports Main "HOL-Library.Sublist"
begin

section \<open>JavaScript values used by the client\<close>

text \<open>
  A promise settles either with a value or with an error. Every error the client
  throws or receives is inspected through its \<open>message\<close> only, so a rejection carries
  that message.
\<close>

datatype 'a settled = Fulfilled 'a | Rejected string

text \<open>
  A string-valued JSON field may be absent (\<open>undefined\<close>). The code tests such fields
  with \<open>if (x)\<close> and \<open>x || y\<close>: absent and empty strings are falsy.
\<close>

definition truthy :: "string option \<Rightarrow> bool" where
  "truthy v = (case v of None \<Rightarrow> False | Some s \<Rightarrow> s \<noteq> [])"

text \<open>\<open>s.includes(sub)\<close>: \<open>sub\<close> occurs in \<open>s\<close> as a contiguous substring.\<close>

fun str_includes :: "string \<Rightarrow> string \<Rightarrow> bool" where
  "str_includes [] sub = (sub = [])"
| "str_includes (c # cs) sub = (prefix sub (c # cs) \<or> str_includes cs sub)"

text \<open>The decimal rendering of a status code inside a template literal.\<close>

definition digit_char :: "nat \<Rightarrow> char" where
  "digit_char d = ''0123456789'' ! (d mod 10)"

fun string_of_nat :: "nat \<Rightarrow> string" where
  "string_of_nat n =
     (if n < 10 then [digit_char n] else string_of_nat (n div 10) @ [digit_char n])"

declare string_of_nat.simps [simp del]

subsection \<open>Backend JSON bodies\<close>

text \<open>The user record the backend sends (\<open>_id\<close>, \<open>fullname\<close>, ...): every field may be absent.\<close>

record backend_user =
  u_id :: "string option"
  fullname :: "string option"
  u_email :: "string option"
  u_username :: "string option"
  u_avatar :: "string option"
  u_role :: "string option"

record response_data =
  resp_user :: "backend_user option"
  accessToken :: "string option"

record body =
  data :: "response_data option"
  message :: "string option"

text \<open>\<open>response.data?.accessToken\<close> and \<open>response.data?.user\<close>.\<close>

definition data_accessToken :: "body \<Rightarrow> string option" where
  "data_accessToken b = (case data b of None \<Rightarrow> None | Some d \<Rightarrow> accessToken d)"

definition data_user :: "body \<Rightarrow> backend_user option" where
  "data_user b = (case data b of None \<Rightarrow> None | Some d \<Rightarrow> resp_user d)"

text \<open>The empty object \<open>{}\<close> that replaces an error body that is not JSON.\<close>

definition empty_body :: body where
  "empty_body = \<lparr>data = None, message = None\<rparr>"

text \<open>
  What \<open>fetch\<close> resolves with: the status and the outcome of \<open>response.json()\<close>.
  \<open>response.ok\<close> holds for the statuses 200 to 299.
\<close>

datatype response = Response nat "body settled"

definition ok :: "nat \<Rightarrow> bool" where
  "ok st = (200 \<le> st \<and> st \<le> 299)"

text \<open>\<open>await response.json().catch(() => ({}))\<close>\<close>

definition errorData :: "body settled \<Rightarrow> body" where
  "errorData js = (case js of Fulfilled b \<Rightarrow> b | Rejected _ \<Rightarrow> empty_body)"

definition generic_error :: "nat \<Rightarrow> string" where
  "generic_error st = ''HTTP error! status: '' @ string_of_nat st"

text \<open>\<open>errorData.message || `HTTP error! status: ${response.status}`\<close>\<close>

definition error_text :: "body \<Rightarrow> nat \<Rightarrow> string" where
  "error_text b st =
     (case message b of
        Some m \<Rightarrow> if m \<noteq> [] then m else generic_error st
      | None \<Rightarrow> generic_error st)"

section \<open>The API service (services/api.js)\<close>

text \<open>The persisted token: the \<open>authToken\<close> entry of \<open>localStorage\<close>.\<close>

record browser =
  authToken :: "string option"

text \<open>A call of \<open>request(endpoint, options)\<close>; \<open>rid\<close> tells calls of one endpoint apart.\<close>

record request =
  rid :: nat
  endpoint :: string

text \<open>
  The call that performs the refresh is suspended twice: while its refresh call is
  in flight (it keeps the error body of its own 401), and while its retry is.
\<close>

datatype owner_task = AwaitingRefresh request body | AwaitingRetry request

text \<open>
  \<open>isRefreshing\<close> and \<open>failedQueue\<close> are the fields of \<open>ApiService\<close>; a queued
  continuation \<open>{resolve, reject}\<close> is identified with the call that pushed it.
  The other fields record what the service does to its surroundings:
  \<open>navigations\<close> the values assigned to \<open>window.location.href\<close>,
  \<open>fetched\<close> the calls of \<open>fetch\<close> (endpoint and bearer token of the
  \<open>Authorization\<close> header), \<open>woken\<close> the continuations resolved by
  \<open>processQueue\<close> whose \<open>then\<close> callbacks have not run yet, \<open>owner\<close> the suspended
  call that owns the refresh, and \<open>settled\<close> the outcomes delivered to callers.
\<close>

record api_state = browser +
  isRefreshing :: bool
  failedQueue :: "request list"
  navigations :: "string list"
  fetched :: "(string \<times> string option) list"
  woken :: "(request \<times> string option) list"
  owner :: "owner_task option"
  settled :: "(request \<times> body settled) list"

definition refresh_endpoint :: string where
  "refresh_endpoint = ''/users/refresh-token''"

text \<open>The guard of lines 49 to 51, without the status test.\<close>

definition eligible :: "string \<Rightarrow> bool" where
  "eligible ep = (\<not> str_includes ep ''/refresh-token'' \<and> \<not> str_includes ep ''/login'')"

text \<open>
  Lines 24 to 42: the header carries the persisted token when there is one, and
  \<open>fetch\<close> is called.
\<close>

definition bearer :: "string option \<Rightarrow> string option" where
  "bearer t = (if truthy t then t else None)"

definition call_fetch :: "string \<Rightarrow> api_state \<Rightarrow> api_state" where
  "call_fetch ep s = s\<lparr>fetched := fetched s @ [(ep, bearer (authToken s))]\<rparr>"

definition settle :: "request \<Rightarrow> body settled \<Rightarrow> api_state \<Rightarrow> api_state" where
  "settle r out s = s\<lparr>settled := settled s @ [(r, out)]\<rparr>"

text \<open>
  \<open>processQueue(error, token)\<close>. A rejected continuation runs only
  \<open>.catch((err) => { throw err; })\<close>, so its call fails with that error. A resolved one
  will run its \<open>then\<close> callback once the current code has reached its next \<open>await\<close>.
\<close>

definition processQueue :: "string option \<Rightarrow> string option \<Rightarrow> api_state \<Rightarrow> api_state" where
  "processQueue error token s =
     (case error of
        Some e \<Rightarrow>
          s\<lparr>settled := settled s @ map (\<lambda>prom. (prom, Rejected e)) (failedQueue s),
            failedQueue := []\<rparr>
      | None \<Rightarrow>
          s\<lparr>woken := woken s @ map (\<lambda>prom. (prom, token)) (failedQueue s),
            failedQueue := []\<rparr>)"

text \<open>
  Lines 95 to 97: the \<open>then\<close> callback of a resolved continuation puts
  \<open>`Bearer ${token}`\<close> into its header and calls \<open>fetch\<close>.
\<close>

definition template_token :: "string option \<Rightarrow> string" where
  "template_token t = (case t of Some x \<Rightarrow> x | None \<Rightarrow> ''null'')"

definition run_woken :: "api_state \<Rightarrow> api_state" where
  "run_woken s =
     s\<lparr>fetched := fetched s @ map (\<lambda>(r, t). (endpoint r, Some (template_token t))) (woken s),
       woken := []\<rparr>"

text \<open>
  The outcome of a call that does not enter the refresh protocol (lines 42 to 46 and
  114 to 119), and of the owner's retry (lines 67 to 79).
\<close>

definition plain_outcome :: "response settled \<Rightarrow> body settled" where
  "plain_outcome resp =
     (case resp of
        Rejected e \<Rightarrow> Rejected e
      | Fulfilled (Response st js) \<Rightarrow>
          if ok st then js else Rejected (error_text (errorData js) st))"

text \<open>
  Lines 97 to 106, the retry of a queued call: \<open>response.json().catch(...)\<close> is not
  awaited there, so \<open>errorData\<close> is a promise and \<open>errorData.message\<close> is undefined.
\<close>

definition queued_retry_outcome :: "response settled \<Rightarrow> body settled" where
  "queued_retry_outcome resp =
     (case resp of
        Rejected e \<Rightarrow> Rejected e
      | Fulfilled (Response st js) \<Rightarrow>
          if ok st then js else Rejected (generic_error st))"

text \<open>
  Lines 81 to 89: the \<open>catch\<close> block of the refresh, followed by \<open>finally\<close>.
\<close>

definition refresh_catch :: "string \<Rightarrow> request \<Rightarrow> api_state \<Rightarrow> api_state" where
  "refresh_catch refreshError r s =
     (let s1 = processQueue (Some refreshError) None s;
          s2 = s1\<lparr>authToken := None\<rparr>;
          s3 = s2\<lparr>navigations := navigations s2 @ [''/login'']\<rparr>;
          s4 = settle r (Rejected refreshError) s3
      in s4\<lparr>isRefreshing := False, owner := None\<rparr>)"

text \<open>
  The code of \<open>request\<close> between two suspension points runs without interruption, so
  the service moves in steps, one for each completed network call:
  \<^item> \<open>Call r\<close>: \<open>request\<close> is invoked and reaches its \<open>fetch\<close>;
  \<^item> \<open>Receive r resp\<close>: the first \<open>fetch\<close> of call \<open>r\<close> has settled with \<open>resp\<close>
    (and the error body, if any, has been read);
  \<^item> \<open>RefreshSettled resp\<close>: the \<open>fetch\<close> of the refresh call has settled;
  \<^item> \<open>RetrySettled resp\<close>: the owner's retry has settled;
  \<^item> \<open>QueuedRetrySettled r resp\<close>: the retry of the queued call \<open>r\<close> has settled.
\<close>

datatype event =
    Call request
  | Receive request "response settled"
  | RefreshSettled "response settled"
  | RetrySettled "response settled"
  | QueuedRetrySettled request "response settled"

definition receive :: "request \<Rightarrow> response settled \<Rightarrow> api_state \<Rightarrow> api_state" where
  "receive r resp s =
     (case resp of
        Rejected e \<Rightarrow> settle r (Rejected e) s
      | Fulfilled (Response st js) \<Rightarrow>
          if ok st then settle r js s
          else if st = 401 \<and> eligible (endpoint r) then
            (if \<not> isRefreshing s then
               call_fetch refresh_endpoint
                 (s\<lparr>isRefreshing := True, owner := Some (AwaitingRefresh r (errorData js))\<rparr>)
             else s\<lparr>failedQueue := failedQueue s @ [r]\<rparr>)
          else settle r (Rejected (error_text (errorData js) st)) s)"

text \<open>
  Lines 57 to 89 and 114, once \<open>await this.refreshToken()\<close> returns or throws. The
  refresh call is itself a \<open>request\<close> whose endpoint is not eligible, so it settles with
  \<open>plain_outcome\<close>. With a token: lines 59 to 67, then the \<open>then\<close> callbacks of the
  resolved continuations. Without one the \<open>if\<close> is skipped, \<open>finally\<close> runs and line 114
  throws the error of the original 401.
\<close>

definition refresh_settled :: "response settled \<Rightarrow> api_state \<Rightarrow> api_state" where
  "refresh_settled resp s =
     (case owner s of
        Some (AwaitingRefresh r ed) \<Rightarrow>
          (case plain_outcome resp of
             Fulfilled refreshResponse \<Rightarrow>
               if truthy (data_accessToken refreshResponse) then
                 (let s1 = s\<lparr>authToken := data_accessToken refreshResponse\<rparr>;
                      s2 = processQueue None (data_accessToken refreshResponse) s1;
                      s3 = s2\<lparr>fetched := fetched s2 @
                             [(endpoint r, Some (template_token (data_accessToken refreshResponse)))]\<rparr>
                  in run_woken (s3\<lparr>owner := Some (AwaitingRetry r)\<rparr>))
               else
                 settle r (Rejected (error_text ed 401))
                   (s\<lparr>isRefreshing := False, owner := None\<rparr>)
           | Rejected refreshError \<Rightarrow> refresh_catch refreshError r s)
      | _ \<Rightarrow> s)"

text \<open>
  Lines 67 to 89 after the retry: a failed retry throws inside the \<open>try\<close> block and
  so reaches the \<open>catch\<close> block of the refresh.
\<close>

definition retry_settled :: "response settled \<Rightarrow> api_state \<Rightarrow> api_state" where
  "retry_settled resp s =
     (case owner s of
        Some (AwaitingRetry r) \<Rightarrow>
          (case plain_outcome resp of
             Fulfilled b \<Rightarrow> settle r (Fulfilled b) (s\<lparr>isRefreshing := False, owner := None\<rparr>)
           | Rejected e \<Rightarrow> refresh_catch e r s)
      | _ \<Rightarrow> s)"

fun step :: "event \<Rightarrow> api_state \<Rightarrow> api_state" where
  "step (Call r) s = call_fetch (endpoint r) s"
| "step (Receive r resp) s = receive r resp s"
| "step (RefreshSettled resp) s = refresh_settled resp s"
| "step (RetrySettled resp) s = retry_settled resp s"
| "step (QueuedRetrySettled r resp) s = settle r (queued_retry_outcome resp) s"

definition run :: "event list \<Rightarrow> api_state \<Rightarrow> api_state" where
  "run evs s = fold step evs s"

text \<open>The service as the constructor leaves it, with a given persisted token.\<close>

definition initial :: "string option \<Rightarrow> api_state" where
  "initial t =
     \<lparr>authToken = t, isRefreshing = False, failedQueue = [], navigations = [],
      fetched = [], woken = [], owner = None, settled = []\<rparr>"

definition refresh_calls :: "api_state \<Rightarrow> nat" where
  "refresh_calls s = length (filter (\<lambda>f. fst f = refresh_endpoint) (fetched s))"

text \<open>A 401 response with the given error body.\<close>

definition unauthorized :: "body settled \<Rightarrow> response settled" where
  "unauthorized js = Fulfilled (Response 401 js)"

text \<open>
  A burst: calls whose first response is a 401, in the order in which \<open>request\<close>
  resumes for them, each with the error body it received.
\<close>

definition burst :: "(request \<times> body settled) list \<Rightarrow> event list" where
  "burst rs = map (\<lambda>(r, js). Receive r (unauthorized js)) rs"

text \<open>The events that deliver the response of a retry.\<close>

fun is_retry_result :: "event \<Rightarrow> bool" where
  "is_retry_result (RetrySettled resp) = True"
| "is_retry_result (QueuedRetrySettled r resp) = True"
| "is_retry_result ev = False"

section \<open>The session store (stores/authStore.js)\<close>

text \<open>The profile built from a backend user record; \<open>role\<close> is \<open>user.role || "user"\<close>.\<close>

record profile =
  id' :: "string option"
  name :: "string option"
  email :: "string option"
  username :: "string option"
  avatar :: "string option"
  role :: string

definition project_user :: "backend_user \<Rightarrow> profile" where
  "project_user u =
     \<lparr>id' = u_id u, name = fullname u, email = u_email u, username = u_username u,
      avatar = u_avatar u,
      role = (case u_role u of Some r \<Rightarrow> if r \<noteq> [] then r else ''user'' | None \<Rightarrow> ''user'')\<rparr>"

text \<open>The objects the operations return: \<open>{success, user, error, message}\<close>.\<close>

record result =
  success :: bool
  result_user :: "profile option"
  error :: "string option"
  result_message :: "string option"

definition succeeded :: result where
  "succeeded = \<lparr>success = True, result_user = None, error = None, result_message = None\<rparr>"

definition failed :: result where
  "failed = \<lparr>success = False, result_user = None, error = None, result_message = None\<rparr>"

text \<open>
  The store's state (\<open>user\<close>, \<open>isAuthenticated\<close>, \<open>isLoading\<close>) with the persisted
  token, and \<open>calls\<close>: the endpoints requested through the API service, in order.
\<close>

record auth_store = browser +
  user :: "profile option"
  isAuthenticated :: bool
  isLoading :: bool
  calls :: "string list"

text \<open>
  The backend is a parameter: for an endpoint and the number of calls made before, the
  outcome of the API service's method and what its refresh protocol did to the
  persisted token meanwhile. The outcome \<open>None\<close> is a promise that never settles: the
  network never answers (there is no timeout), or the call was pushed to \<open>failedQueue\<close>
  and \<open>processQueue\<close> never ran again. Arguments such as credentials are only
  forwarded, so every answer to them is one of these backends.
\<close>

datatype storage_effect = Untouched | Stored string | Removed

type_synonym backend = "string \<Rightarrow> nat \<Rightarrow> body settled option \<times> storage_effect"

definition apply_effect :: "storage_effect \<Rightarrow> string option \<Rightarrow> string option" where
  "apply_effect eff t = (case eff of Untouched \<Rightarrow> t | Stored x \<Rightarrow> Some x | Removed \<Rightarrow> None)"

text \<open>
  \<open>await apiService.method()\<close>. \<open>request\<close> writes the token only inside the refresh
  protocol, which login and refresh calls never enter.
\<close>

definition api_call ::
  "backend \<Rightarrow> string \<Rightarrow> auth_store \<Rightarrow> body settled option \<times> auth_store" where
  "api_call bk ep w =
     (let (out, eff) = bk ep (length (calls w))
      in (out, w\<lparr>authToken := (if eligible ep then apply_effect eff (authToken w) else authToken w),
                calls := calls w @ [ep]\<rparr>))"

text \<open>
  The backend that an execution of the API service amounts to: the store's call number
  \<open>n\<close> is the call with \<open>rid = n\<close>, its outcome is the one the service delivered (none
  when the call was never settled), and the persisted token is the one the service left.
\<close>

definition service_backend :: "api_state \<Rightarrow> backend" where
  "service_backend s =
     (\<lambda>ep n. (map_of (settled s) \<lparr>rid = n, endpoint = ep\<rparr>,
               case authToken s of Some t \<Rightarrow> Stored t | None \<Rightarrow> Removed))"

text \<open>Lines 37 to 49 of the store: the \<open>if\<close> chain over \<open>error.message\<close>.\<close>

definition login_error_message :: "string \<Rightarrow> string" where
  "login_error_message m =
     (if str_includes m ''User does not exist'' then
        ''User not found. Please check your credentials.''
      else if str_includes m ''Invalid user credentials'' then ''Invalid username or password.''
      else if str_includes m ''Account is deactivated'' then
        ''Your account has been deactivated. Please contact admin.''
      else if str_includes m ''Too many requests'' then
        ''Too many login attempts. Please try again later.''
      else m)"

definition signup_error_message :: "string \<Rightarrow> string" where
  "signup_error_message m =
     (if str_includes m ''Username can only contain letters, numbers, and underscores'' then
        ''Username can only contain letters, numbers, and underscores.''
      else if str_includes m ''User with this email or username already exists'' then
        ''An account with this email or username already exists.''
      else if str_includes m ''Password must be at least'' then
        ''Password must be at least 6 characters long.''
      else if str_includes m ''Invalid email'' then ''Please enter a valid email address.''
      else if str_includes m ''Full name is required'' then ''Please enter your full name.''
      else m)"

text \<open>
  Every operation of the store but \<open>setUser\<close> is asynchronous. Its outcome is \<open>None\<close>
  when it never returns, because a call it awaits never settles; the state is then the
  one in which it stays suspended.
\<close>

text \<open>The \<open>catch\<close> block of \<open>login\<close>.\<close>

definition login_catch :: "string \<Rightarrow> auth_store \<Rightarrow> result settled option \<times> auth_store" where
  "login_catch m w =
     (Some (Fulfilled (failed\<lparr>error := Some (login_error_message m)\<rparr>)),
      w\<lparr>isLoading := False\<rparr>)"

definition login :: "backend \<Rightarrow> auth_store \<Rightarrow> result settled option \<times> auth_store" where
  "login bk w =
     (let w1 = w\<lparr>isLoading := True\<rparr>;
          (out, w2) = api_call bk ''/users/login'' w1
      in case out of
           None \<Rightarrow> (None, w2)
         | Some (Fulfilled response) \<Rightarrow>
             (case data_user response of
                Some u \<Rightarrow>
                  (let usr = project_user u;
                       w3 = (if truthy (data_accessToken response)
                             then w2\<lparr>authToken := data_accessToken response\<rparr> else w2)
                   in (Some (Fulfilled (succeeded\<lparr>result_user := Some usr\<rparr>)),
                       w3\<lparr>user := Some usr, isAuthenticated := True, isLoading := False\<rparr>))
              | None \<Rightarrow> login_catch ''Login failed'' w2)
         | Some (Rejected m) \<Rightarrow> login_catch m w2)"

definition signup :: "backend \<Rightarrow> auth_store \<Rightarrow> result settled option \<times> auth_store" where
  "signup bk w =
     (let w1 = w\<lparr>isLoading := True\<rparr>;
          (out, w2) = api_call bk ''/users/register'' w1
      in case out of
           None \<Rightarrow> (None, w2)
         | Some (Fulfilled response) \<Rightarrow>
             (Some (Fulfilled (succeeded\<lparr>result_message :=
                Some (case message response of
                        Some m \<Rightarrow> if m \<noteq> [] then m else ''Account created successfully!''
                      | None \<Rightarrow> ''Account created successfully!'')\<rparr>)),
              w2\<lparr>isLoading := False\<rparr>)
         | Some (Rejected m) \<Rightarrow>
             (Some (Fulfilled (failed\<lparr>error := Some (signup_error_message m)\<rparr>)),
              w2\<lparr>isLoading := False\<rparr>))"

text \<open>
  \<open>logout\<close>: the \<open>catch\<close> block only logs, and the \<open>finally\<close> block runs after either
  outcome of \<open>await apiService.logout()\<close>. While that promise is pending neither block
  runs.
\<close>

definition logout_finally :: "auth_store \<Rightarrow> unit settled option \<times> auth_store" where
  "logout_finally w =
     (Some (Fulfilled ()), w\<lparr>authToken := None, user := None, isAuthenticated := False\<rparr>)"

definition logout :: "backend \<Rightarrow> auth_store \<Rightarrow> unit settled option \<times> auth_store" where
  "logout bk w =
     (let (out, w1) = api_call bk ''/users/logout'' w
      in case out of
           None \<Rightarrow> (None, w1)
         | Some (Fulfilled response) \<Rightarrow> logout_finally w1
         | Some (Rejected e) \<Rightarrow> logout_finally w1)"

definition refreshAuth :: "backend \<Rightarrow> auth_store \<Rightarrow> result settled option \<times> auth_store" where
  "refreshAuth bk w =
     (let (out, w1) = api_call bk refresh_endpoint w
      in case out of
           None \<Rightarrow> (None, w1)
         | Some (Fulfilled response) \<Rightarrow>
             if truthy (data_accessToken response)
             then (Some (Fulfilled succeeded), w1\<lparr>authToken := data_accessToken response\<rparr>)
             else (Some (Fulfilled failed), w1)
         | Some (Rejected e) \<Rightarrow>
             (Some (Fulfilled failed),
              w1\<lparr>authToken := None, user := None, isAuthenticated := False\<rparr>))"

definition getCurrentUser :: "backend \<Rightarrow> auth_store \<Rightarrow> result settled option \<times> auth_store" where
  "getCurrentUser bk w =
     (let (out, w1) = api_call bk ''/users/me'' w
      in case out of
           None \<Rightarrow> (None, w1)
         | Some (Fulfilled response) \<Rightarrow>
             (case data_user response of
                Some u \<Rightarrow>
                  (let usr = project_user u
                   in (Some (Fulfilled (succeeded\<lparr>result_user := Some usr\<rparr>)),
                       w1\<lparr>user := Some usr, isAuthenticated := True\<rparr>))
              | None \<Rightarrow> (Some (Fulfilled failed), w1))
         | Some (Rejected e) \<Rightarrow> (Some (Fulfilled failed), w1))"

text \<open>The \<open>catch\<close> block of \<open>checkAuth\<close>; the result is the \<open>isAuthenticated\<close> field.\<close>

definition checkAuth_catch :: "auth_store \<Rightarrow> bool settled option \<times> auth_store" where
  "checkAuth_catch w = (Some (Fulfilled False), w\<lparr>authToken := None\<rparr>)"

definition checkAuth :: "backend \<Rightarrow> auth_store \<Rightarrow> bool settled option \<times> auth_store" where
  "checkAuth bk w =
     (if \<not> truthy (authToken w) then (Some (Fulfilled False), w)
      else
        (case getCurrentUser bk w of
           (None, w1) \<Rightarrow> (None, w1)
         | (Some (Rejected e), w1) \<Rightarrow> checkAuth_catch w1
         | (Some (Fulfilled res), w1) \<Rightarrow>
             if success res then (Some (Fulfilled True), w1)
             else
               (case refreshAuth bk w1 of
                  (None, w2) \<Rightarrow> (None, w2)
                | (Some (Rejected e), w2) \<Rightarrow> checkAuth_catch w2
                | (Some (Fulfilled refreshResult), w2) \<Rightarrow>
                    if success refreshResult then
                      (case getCurrentUser bk w2 of
                         (None, w3) \<Rightarrow> (None, w3)
                       | (Some (Rejected e), w3) \<Rightarrow> checkAuth_catch w3
                       | (Some (Fulfilled userResult), w3) \<Rightarrow>
                           (Some (Fulfilled (success userResult)), w3))
                    else (Some (Fulfilled False), w2))))"

text \<open>The \<open>finally\<close> block of \<open>initializeAuth\<close>.\<close>

definition initializeAuth_finally :: "auth_store \<Rightarrow> unit settled option \<times> auth_store" where
  "initializeAuth_finally w = (Some (Fulfilled ()), w\<lparr>isLoading := False\<rparr>)"

definition initializeAuth :: "backend \<Rightarrow> auth_store \<Rightarrow> unit settled option \<times> auth_store" where
  "initializeAuth bk w =
     (let w1 = w\<lparr>isLoading := True\<rparr>
      in case checkAuth bk w1 of
           (None, w2) \<Rightarrow> (None, w2)
         | (Some (Rejected e), w2) \<Rightarrow> initializeAuth_finally w2
         | (Some (Fulfilled auth), w2) \<Rightarrow>
             if auth then
               (case getCurrentUser bk w2 of
                  (None, w3) \<Rightarrow> (None, w3)
                | (Some r, w3) \<Rightarrow> initializeAuth_finally w3)
             else initializeAuth_finally w2)"

definition setUser :: "profile option \<Rightarrow> auth_store \<Rightarrow> auth_store" where
  "setUser u w = w\<lparr>user := u, isAuthenticated := (u \<noteq> None)\<rparr>"

section \<open>Concrete calls, bodies and backends\<close>

definition call_me :: request where
  "call_me = \<lparr>rid = 1, endpoint = ''/users/me''\<rparr>"

definition call_create :: request where
  "call_create = \<lparr>rid = 2, endpoint = ''/products/create''\<rparr>"

definition call_products :: request where
  "call_products = \<lparr>rid = 3, endpoint = ''/products/allProducts?''\<rparr>"

definition call_login :: request where
  "call_login = \<lparr>rid = 4, endpoint = ''/users/login''\<rparr>"

definition token_body :: "string \<Rightarrow> body" where
  "token_body tok = \<lparr>data = Some \<lparr>resp_user = None, accessToken = Some tok\<rparr>, message = None\<rparr>"

definition tokenless_body :: body where
  "tokenless_body = \<lparr>data = Some \<lparr>resp_user = None, accessToken = None\<rparr>, message = None\<rparr>"

definition message_body :: "string \<Rightarrow> body" where
  "message_body m = \<lparr>data = None, message = Some m\<rparr>"

definition respond :: "nat \<Rightarrow> body \<Rightarrow> response settled" where
  "respond st b = Fulfilled (Response st (Fulfilled b))"

definition three_calls :: "(request \<times> body settled) list" where
  "three_calls =
     [(call_me, Fulfilled (message_body ''jwt expired'')),
      (call_create, Fulfilled (message_body ''jwt expired'')),
      (call_products, Rejected ''Unexpected end of JSON input'')]"

definition admin_record :: backend_user where
  "admin_record =
     \<lparr>u_id = Some ''u1'', fullname = Some ''A'', u_email = Some ''a@x.com'',
      u_username = Some ''a'', u_avatar = None, u_role = Some ''admin''\<rparr>"

definition login_body :: body where
  "login_body =
     \<lparr>data = Some \<lparr>resp_user = Some admin_record, accessToken = Some ''tok1''\<rparr>,
      message = None\<rparr>"

definition signed_out :: auth_store where
  "signed_out =
     \<lparr>authToken = None, user = None, isAuthenticated = False, isLoading = False, calls = []\<rparr>"

definition signed_in :: auth_store where
  "signed_in =
     \<lparr>authToken = Some ''old'', user = Some (project_user admin_record),
      isAuthenticated = True, isLoading = True, calls = []\<rparr>"

text \<open>The backend that gives every call the same outcome.\<close>

definition always :: "body settled \<Rightarrow> backend" where
  "always out = (\<lambda>ep n. (Some out, Untouched))"

definition guest_record :: backend_user where
  "guest_record =
     \<lparr>u_id = Some ''u2'', fullname = Some ''B'', u_email = Some ''b@x.com'',
      u_username = Some ''b'', u_avatar = None, u_role = None\<rparr>"

definition guest_body :: body where
  "guest_body =
     \<lparr>data = Some \<lparr>resp_user = Some guest_record, accessToken = Some ''tok2''\<rparr>,
      message = None\<rparr>"

text \<open>
  A logout whose 401 arrives while a refresh is in flight, when the refresh call then
  returns a 2xx body without an access token. The three calls of \<open>fetch\<close> have all
  been answered.
\<close>

definition call_logout :: request where
  "call_logout = \<lparr>rid = 0, endpoint = ''/users/logout''\<rparr>"

definition logout_queued :: api_state where
  "logout_queued =
     run [Call call_me, Call call_logout,
          Receive call_me (unauthorized (Fulfilled (message_body ''jwt expired''))),
          Receive call_logout (unauthorized (Fulfilled (message_body ''jwt expired''))),
          RefreshSettled (respond 200 tokenless_body)]
       (initial (Some ''old''))"

section \<open>Properties of the API service\<close>

lemma refresh_endpoint_not_eligible: "\<not> eligible refresh_endpoint"
  by (simp add: eligible_def refresh_endpoint_def)

lemma eligible_not_refresh: "eligible ep \<Longrightarrow> ep \<noteq> refresh_endpoint"
  using refresh_endpoint_not_eligible by auto

lemma not_ok_401: "\<not> ok 401"
  by (simp add: ok_def)

lemma generic_error_401: "generic_error 401 = ''HTTP error! status: 401''"
  by (simp add: generic_error_def string_of_nat.simps digit_char_def)

lemma generic_error_500: "generic_error 500 = ''HTTP error! status: 500''"
  by (simp add: generic_error_def string_of_nat.simps digit_char_def)

lemma receive_idle:
  "\<not> isRefreshing s \<Longrightarrow> eligible (endpoint r) \<Longrightarrow>
   receive r (unauthorized js) s =
     call_fetch refresh_endpoint
       (s\<lparr>isRefreshing := True, owner := Some (AwaitingRefresh r (errorData js))\<rparr>)"
  by (simp add: receive_def unauthorized_def not_ok_401)

lemma receive_busy:
  "isRefreshing s \<Longrightarrow> eligible (endpoint r) \<Longrightarrow>
   receive r (unauthorized js) s = s\<lparr>failedQueue := failedQueue s @ [r]\<rparr>"
  by (simp add: receive_def unauthorized_def not_ok_401)

lemma receive_not_eligible:
  "\<not> eligible (endpoint r) \<Longrightarrow>
   receive r (unauthorized js) s = settle r (Rejected (error_text (errorData js) 401)) s"
  by (simp add: receive_def unauthorized_def not_ok_401)

lemma run_Nil: "run [] s = s"
  by (simp add: run_def)

lemma run_Cons: "run (ev # evs) s = run evs (step ev s)"
  by (simp add: run_def)

lemma run_append: "run (xs @ ys) s = run ys (run xs s)"
  by (simp add: run_def)

text \<open>While a refresh is in flight, a burst of 401 responses only grows the queue.\<close>

lemma run_burst_busy:
  "isRefreshing s \<Longrightarrow> \<forall>p \<in> set qs. eligible (endpoint (fst p)) \<Longrightarrow>
   run (burst qs) s = s\<lparr>failedQueue := failedQueue s @ map fst qs\<rparr>"
proof (induction qs arbitrary: s)
  case Nil
  then show ?case by (simp add: burst_def run_Nil)
next
  case (Cons q qs)
  obtain r js where q: "q = (r, js)" by (cases q)
  from Cons.prems have el: "eligible (endpoint r)"
    and rest: "\<forall>p \<in> set qs. eligible (endpoint (fst p))"
    by (simp_all add: q)
  have "run (burst (q # qs)) s = run (burst qs) (receive r (unauthorized js) s)"
    by (simp add: burst_def run_Cons q)
  also have "\<dots> = run (burst qs) (s\<lparr>failedQueue := failedQueue s @ [r]\<rparr>)"
    using Cons.prems(1) el by (simp add: receive_busy)
  also have "\<dots> = s\<lparr>failedQueue := failedQueue s @ map fst (q # qs)\<rparr>"
    using Cons.prems(1) rest by (simp add: Cons.IH q)
  finally show ?case .
qed

text \<open>From the idle state the first call of the burst starts the refresh.\<close>

lemma run_burst_idle:
  assumes "\<not> isRefreshing s"
    and "\<forall>p \<in> set ((r, js) # qs). eligible (endpoint (fst p))"
  shows "run (burst ((r, js) # qs)) s =
    s\<lparr>isRefreshing := True, owner := Some (AwaitingRefresh r (errorData js)),
      fetched := fetched s @ [(refresh_endpoint, bearer (authToken s))],
      failedQueue := failedQueue s @ map fst qs\<rparr>"
proof -
  let ?s1 = "call_fetch refresh_endpoint
       (s\<lparr>isRefreshing := True, owner := Some (AwaitingRefresh r (errorData js))\<rparr>)"
  have "run (burst ((r, js) # qs)) s = run (burst qs) (receive r (unauthorized js) s)"
    by (simp add: burst_def run_Cons)
  also have "\<dots> = run (burst qs) ?s1"
    using assms by (simp add: receive_idle)
  also have "\<dots> = ?s1\<lparr>failedQueue := failedQueue ?s1 @ map fst qs\<rparr>"
    using assms(2) by (intro run_burst_busy) (simp_all add: call_fetch_def)
  finally show ?thesis by (simp add: call_fetch_def)
qed

text \<open>The three ways in which the refresh call can end for its owner.\<close>

lemma refresh_settled_token:
  assumes "owner s = Some (AwaitingRefresh r ed)" and "woken s = []"
    and "plain_outcome resp = Fulfilled b" and "data_accessToken b = Some tok" and "tok \<noteq> []"
  shows "refresh_settled resp s =
    s\<lparr>authToken := Some tok, failedQueue := [], owner := Some (AwaitingRetry r),
      fetched := fetched s @
        (endpoint r, Some tok) # map (\<lambda>q. (endpoint q, Some tok)) (failedQueue s)\<rparr>"
  using assms
  by (simp add: refresh_settled_def truthy_def processQueue_def run_woken_def
      template_token_def comp_def)

lemma refresh_settled_rejected:
  assumes "owner s = Some (AwaitingRefresh r ed)" and "plain_outcome resp = Rejected e"
  shows "refresh_settled resp s =
    s\<lparr>settled := settled s @ map (\<lambda>q. (q, Rejected e)) (failedQueue s) @ [(r, Rejected e)],
      failedQueue := [], authToken := None, navigations := navigations s @ [''/login''],
      isRefreshing := False, owner := None\<rparr>"
  using assms
  by (simp add: refresh_settled_def refresh_catch_def processQueue_def settle_def)

lemma refresh_settled_no_token:
  assumes "owner s = Some (AwaitingRefresh r ed)"
    and "plain_outcome resp = Fulfilled b" and "\<not> truthy (data_accessToken b)"
  shows "refresh_settled resp s =
    s\<lparr>settled := settled s @ [(r, Rejected (error_text ed 401))],
      isRefreshing := False, owner := None\<rparr>"
  using assms
  by (simp add: refresh_settled_def settle_def)

lemma filter_retries:
  "\<forall>p \<in> set rs. eligible (endpoint (fst p)) \<Longrightarrow>
   filter (\<lambda>f. fst f = refresh_endpoint) (map (\<lambda>p. (endpoint (fst p), t)) rs) = []"
  by (induction rs) (auto dest: eligible_not_refresh)

text \<open>The response of a retry never causes another \<open>fetch\<close>.\<close>

lemma step_retry_result_fetched:
  "is_retry_result ev \<Longrightarrow> fetched (step ev s) = fetched s"
  by (cases ev)
    (simp_all add: retry_settled_def refresh_catch_def settle_def processQueue_def
      split: option.splits owner_task.splits settled.splits)

lemma run_retry_results_fetched:
  "\<forall>ev \<in> set evs. is_retry_result ev \<Longrightarrow> fetched (run evs s) = fetched s"
  by (induction evs arbitrary: s) (simp_all add: run_Nil run_Cons step_retry_result_fetched)

text \<open>No resolved continuation is left waiting between two steps.\<close>

lemma step_woken: "woken s = [] \<Longrightarrow> woken (step ev s) = []"
  by (cases ev)
    (simp_all add: call_fetch_def receive_def refresh_settled_def retry_settled_def
      refresh_catch_def settle_def processQueue_def run_woken_def Let_def
      split: option.splits owner_task.splits settled.splits response.splits)

lemma run_woken_empty: "woken s = [] \<Longrightarrow> woken (run evs s) = []"
  by (induction evs arbitrary: s) (simp_all add: run_Nil run_Cons step_woken)

text \<open>
  The recorded owner agrees with the flag of the service: a call is suspended as the
  owner of the refresh exactly while \<open>isRefreshing\<close> is set.
\<close>

lemma step_owner_flag:
  "isRefreshing s = (owner s \<noteq> None) \<Longrightarrow>
   isRefreshing (step ev s) = (owner (step ev s) \<noteq> None)"
  by (cases ev)
    (simp_all add: call_fetch_def receive_def refresh_settled_def retry_settled_def
      refresh_catch_def settle_def processQueue_def run_woken_def Let_def
      split: option.splits owner_task.splits settled.splits response.splits)

lemma run_owner_flag:
  "isRefreshing s = (owner s \<noteq> None) \<Longrightarrow>
   isRefreshing (run evs s) = (owner (run evs s) \<noteq> None)"
  by (induction evs arbitrary: s) (simp_all add: run_Nil run_Cons step_owner_flag)

lemma plain_outcome_respond:
  "plain_outcome (respond st b) = (if ok st then Fulfilled b else Rejected (error_text b st))"
  by (simp add: plain_outcome_def respond_def errorData_def)

lemma three_calls_eligible: "\<forall>p \<in> set three_calls. eligible (endpoint (fst p))"
  by (simp add: three_calls_def call_me_def call_create_def call_products_def eligible_def)

lemmas api_defs =
  run_def burst_def unauthorized_def respond_def initial_def receive_def refresh_settled_def
  retry_settled_def refresh_catch_def processQueue_def run_woken_def settle_def call_fetch_def
  plain_outcome_def queued_retry_outcome_def errorData_def error_text_def empty_body_def
  token_body_def tokenless_body_def message_body_def data_accessToken_def truthy_def bearer_def
  template_token_def eligible_def ok_def refresh_endpoint_def refresh_calls_def
  call_me_def call_create_def call_products_def call_login_def three_calls_def

text \<open>
  Claim C1. Take calls whose endpoints contain neither \<open>/refresh-token\<close> nor \<open>/login\<close>
  and which all receive a 401, starting while no refresh is in flight and the queue is
  empty, all before the refresh settles. Then exactly one refresh call is made, by the
  first of them. When the refresh call returns an access token, each of the calls is
  fetched again exactly once with that token, the owner first and the queued calls in
  the order of the queue, and the responses of these retries cause no further fetch.
  When the refresh call throws, every one of the calls fails with that error.
\<close>

theorem burst_one_refresh:
  assumes "\<not> isRefreshing s" and "failedQueue s = []" and "woken s = []"
    and "\<forall>p \<in> set ((r, js) # qs). eligible (endpoint (fst p))"
    and "\<forall>ev \<in> set evs. is_retry_result ev"
  shows "refresh_calls (run (burst ((r, js) # qs) @ RefreshSettled resp # evs) s) =
           refresh_calls s + 1
    \<and> (\<forall>b tok. plain_outcome resp = Fulfilled b \<and> data_accessToken b = Some tok \<and> tok \<noteq> [] \<longrightarrow>
          fetched (run (burst ((r, js) # qs) @ RefreshSettled resp # evs) s) =
            fetched s @ (refresh_endpoint, bearer (authToken s)) #
              map (\<lambda>p. (endpoint (fst p), Some tok)) ((r, js) # qs))
    \<and> (\<forall>e. plain_outcome resp = Rejected e \<longrightarrow>
          settled (run (burst ((r, js) # qs) @ [RefreshSettled resp]) s) =
            settled s @ map (\<lambda>p. (fst p, Rejected e)) qs @ [(r, Rejected e)])"
proof -
  let ?m = "run (burst ((r, js) # qs)) s"
  have m: "?m = s\<lparr>isRefreshing := True, owner := Some (AwaitingRefresh r (errorData js)),
      fetched := fetched s @ [(refresh_endpoint, bearer (authToken s))],
      failedQueue := failedQueue s @ map fst qs\<rparr>"
    using assms(1,4) by (rule run_burst_idle)
  have fin: "run (burst ((r, js) # qs) @ [RefreshSettled resp]) s = refresh_settled resp ?m"
    by (simp add: run_append run_Cons run_Nil)
  have "run (burst ((r, js) # qs) @ RefreshSettled resp # evs) s =
      run evs (refresh_settled resp ?m)"
    by (simp add: run_append run_Cons)
  then have later: "fetched (run (burst ((r, js) # qs) @ RefreshSettled resp # evs) s) =
      fetched (refresh_settled resp ?m)"
    using assms(5) by (simp add: run_retry_results_fetched)
  have own: "owner ?m = Some (AwaitingRefresh r (errorData js))" and wk: "woken ?m = []"
    and q: "failedQueue ?m = map fst qs"
    and f: "fetched ?m = fetched s @ [(refresh_endpoint, bearer (authToken s))]"
    and st: "settled ?m = settled s"
    using assms(2,3) by (simp_all add: m)
  have tokcase: "fetched (refresh_settled resp ?m) =
        fetched s @ (refresh_endpoint, bearer (authToken s)) #
          map (\<lambda>p. (endpoint (fst p), Some tok)) ((r, js) # qs)"
    if "plain_outcome resp = Fulfilled b" "data_accessToken b = Some tok" "tok \<noteq> []" for b tok
    using refresh_settled_token [OF own wk that] by (simp add: q f comp_def)
  have rejcase: "settled (refresh_settled resp ?m) =
        settled s @ map (\<lambda>p. (fst p, Rejected e)) qs @ [(r, Rejected e)]"
    if "plain_outcome resp = Rejected e" for e
    using refresh_settled_rejected [OF own that] by (simp add: q st comp_def)
  have count: "length (filter (\<lambda>f. fst f = refresh_endpoint) (fetched (refresh_settled resp ?m))) =
      refresh_calls s + 1"
  proof (cases "plain_outcome resp")
    case (Rejected e)
    have "fetched (refresh_settled resp ?m) = fetched ?m"
      using refresh_settled_rejected [OF own Rejected] by simp
    then show ?thesis by (simp add: refresh_calls_def f)
  next
    case (Fulfilled b)
    show ?thesis
    proof (cases "truthy (data_accessToken b)")
      case False
      have "fetched (refresh_settled resp ?m) = fetched ?m"
        using refresh_settled_no_token [OF own Fulfilled False] by simp
      then show ?thesis by (simp add: refresh_calls_def f)
    next
      case True
      then obtain tok where t: "data_accessToken b = Some tok" "tok \<noteq> []"
        by (auto simp: truthy_def split: option.splits)
      have "filter (\<lambda>f. fst f = refresh_endpoint)
          (map (\<lambda>p. (endpoint (fst p), Some tok)) ((r, js) # qs)) = []"
        using assms(4) by (rule filter_retries)
      then show ?thesis
        using tokcase [OF Fulfilled t] by (simp add: refresh_calls_def)
    qed
  qed
  have count': "refresh_calls (run (burst ((r, js) # qs) @ RefreshSettled resp # evs) s) =
      refresh_calls s + 1"
    using count by (simp add: refresh_calls_def later)
  show ?thesis
    unfolding fin using count' tokcase rejcase by (simp add: later)
qed

theorem burst_one_refresh_witness:
  "refresh_calls
     (run (burst three_calls @
            RefreshSettled (respond 200 (token_body ''new'')) #
            [RetrySettled (respond 200 empty_body),
             QueuedRetrySettled call_create (respond 500 (message_body ''Server exploded''))])
        (initial (Some ''old''))) = 1
   \<and> fetched
     (run (burst three_calls @
            RefreshSettled (respond 200 (token_body ''new'')) #
            [RetrySettled (respond 200 empty_body),
             QueuedRetrySettled call_create (respond 500 (message_body ''Server exploded''))])
        (initial (Some ''old''))) =
       [(''/users/refresh-token'', Some ''old''), (''/users/me'', Some ''new''),
        (''/products/create'', Some ''new''), (''/products/allProducts?'', Some ''new'')]
   \<and> settled
     (run (burst three_calls @ [RefreshSettled (respond 401 (message_body ''Refresh token expired''))])
        (initial (Some ''old''))) =
       [(call_create, Rejected ''Refresh token expired''),
        (call_products, Rejected ''Refresh token expired''),
        (call_me, Rejected ''Refresh token expired'')]"
proof -
  let ?s = "initial (Some ''old'')"
  let ?js = "Fulfilled (message_body ''jwt expired'')"
  let ?qs = "[(call_create, Fulfilled (message_body ''jwt expired'')),
      (call_products, Rejected ''Unexpected end of JSON input'')]"
  let ?evs = "[RetrySettled (respond 200 empty_body),
      QueuedRetrySettled call_create (respond 500 (message_body ''Server exploded''))]"
  have three: "three_calls = (call_me, ?js) # ?qs"
    by (simp add: three_calls_def)
  have idle: "\<not> isRefreshing ?s" "failedQueue ?s = []" "woken ?s = []"
    by (simp_all add: initial_def)
  have el: "\<forall>p \<in> set ((call_me, ?js) # ?qs). eligible (endpoint (fst p))"
    using three_calls_eligible by (simp add: three)
  have evs: "\<forall>ev \<in> set ?evs. is_retry_result ev"
    by simp
  have good: "plain_outcome (respond 200 (token_body ''new'')) = Fulfilled (token_body ''new'')"
    and tok: "data_accessToken (token_body ''new'') = Some ''new''"
    by (simp_all add: plain_outcome_respond ok_def token_body_def data_accessToken_def)
  have bad: "plain_outcome (respond 401 (message_body ''Refresh token expired'')) =
      Rejected ''Refresh token expired''"
    by (simp add: plain_outcome_respond ok_def message_body_def error_text_def)
  have zero: "refresh_calls ?s = 0" and none: "fetched ?s = []" "settled ?s = []"
    and old: "bearer (authToken ?s) = Some ''old''"
    by (simp_all add: refresh_calls_def initial_def bearer_def truthy_def)
  note a = burst_one_refresh [OF idle el evs, of "respond 200 (token_body ''new'')"]
  note b = burst_one_refresh [OF idle el evs,
      of "respond 401 (message_body ''Refresh token expired'')"]
  from a good tok have
    "refresh_calls (run (burst ((call_me, ?js) # ?qs) @
        RefreshSettled (respond 200 (token_body ''new'')) # ?evs) ?s) = 1"
    "fetched (run (burst ((call_me, ?js) # ?qs) @
        RefreshSettled (respond 200 (token_body ''new'')) # ?evs) ?s) =
      [(''/users/refresh-token'', Some ''old''), (''/users/me'', Some ''new''),
        (''/products/create'', Some ''new''), (''/products/allProducts?'', Some ''new'')]"
    by (simp_all add: zero none old refresh_endpoint_def call_me_def call_create_def
        call_products_def)
  moreover from b bad have
    "settled (run (burst ((call_me, ?js) # ?qs) @
        [RefreshSettled (respond 401 (message_body ''Refresh token expired''))]) ?s) =
      [(call_create, Rejected ''Refresh token expired''),
        (call_products, Rejected ''Refresh token expired''),
        (call_me, Rejected ''Refresh token expired'')]"
    by (simp add: none)
  ultimately show ?thesis
    by (simp add: three)
qed

theorem login_401_starts_no_refresh:
  "refresh_calls
     (run (burst [(call_login, Fulfilled (message_body ''Invalid user credentials''))])
        (initial None)) = 0
   \<and> isRefreshing
     (run (burst [(call_login, Fulfilled (message_body ''Invalid user credentials''))])
        (initial None)) = False
   \<and> settled
     (run (burst [(call_login, Fulfilled (message_body ''Invalid user credentials''))])
        (initial None)) = [(call_login, Rejected ''Invalid user credentials'')]"
  by (simp add: api_defs)

text \<open>
  Claim C2. Two calls receive a 401 and the refresh call returns a 2xx response whose
  body has no access token: the refresh flag is cleared, the owner fails with the error
  of its own 401, and the continuation of the second call is still in the queue,
  neither resolved nor rejected.
\<close>

theorem queue_survives_tokenless_refresh:
  "isRefreshing
     (run (burst [(call_me, Fulfilled (message_body ''jwt expired'')),
                  (call_create, Fulfilled (message_body ''jwt expired''))] @
            [RefreshSettled (respond 200 tokenless_body)])
        (initial (Some ''old''))) = False
   \<and> failedQueue
     (run (burst [(call_me, Fulfilled (message_body ''jwt expired'')),
                  (call_create, Fulfilled (message_body ''jwt expired''))] @
            [RefreshSettled (respond 200 tokenless_body)])
        (initial (Some ''old''))) = [call_create]
   \<and> settled
     (run (burst [(call_me, Fulfilled (message_body ''jwt expired'')),
                  (call_create, Fulfilled (message_body ''jwt expired''))] @
            [RefreshSettled (respond 200 tokenless_body)])
        (initial (Some ''old''))) = [(call_me, Rejected ''jwt expired'')]"
  by (simp add: api_defs)

text \<open>
  Claim C3. When the refresh call fails (it throws: a network error, a response that
  is not 2xx, or a 2xx body that is not JSON) while calls are queued, every queued
  continuation is rejected with the refresh error, the persisted token is removed,
  \<open>window.location.href\<close> is set to \<open>/login\<close> once whatever the length of the queue, the
  owner of the refresh fails with the same error, and the queue and the refresh flag are
  cleared.
\<close>

theorem refresh_failure_rejects_queue:
  assumes "owner s = Some (AwaitingRefresh r ed)" and "plain_outcome resp = Rejected e"
  shows "settled (step (RefreshSettled resp) s) =
           settled s @ map (\<lambda>q. (q, Rejected e)) (failedQueue s) @ [(r, Rejected e)]
    \<and> authToken (step (RefreshSettled resp) s) = None
    \<and> navigations (step (RefreshSettled resp) s) = navigations s @ [''/login'']
    \<and> failedQueue (step (RefreshSettled resp) s) = []
    \<and> \<not> isRefreshing (step (RefreshSettled resp) s)"
  using refresh_settled_rejected [OF assms] by simp

theorem refresh_failure_rejects_queue_witness:
  "settled (step (RefreshSettled (Rejected ''Failed to fetch''))
       (run (burst three_calls) (initial (Some ''old'')))) =
     [(call_create, Rejected ''Failed to fetch''), (call_products, Rejected ''Failed to fetch''),
      (call_me, Rejected ''Failed to fetch'')]
   \<and> authToken (step (RefreshSettled (Rejected ''Failed to fetch''))
       (run (burst three_calls) (initial (Some ''old'')))) = None
   \<and> navigations (step (RefreshSettled (Rejected ''Failed to fetch''))
       (run (burst three_calls) (initial (Some ''old'')))) = [''/login'']"
proof -
  let ?s = "run (burst three_calls) (initial (Some ''old''))"
  have own: "owner ?s = Some (AwaitingRefresh call_me (message_body ''jwt expired''))"
    and q: "failedQueue ?s = [call_create, call_products]"
    and st: "settled ?s = []" and nav: "navigations ?s = []"
    by (simp_all add: api_defs)
  have rej: "plain_outcome (Rejected ''Failed to fetch'') = Rejected ''Failed to fetch''"
    by (simp add: plain_outcome_def)
  from refresh_failure_rejects_queue [OF own rej] show ?thesis
    by (simp add: q st nav)
qed

text \<open>
  Claim C9. A queued call whose retry, after a successful refresh, receives status 500
  with the body message \<open>Server exploded\<close> fails with the generic text, not with the
  backend's message; the same response outside the queue fails with the message.
\<close>

theorem queued_retry_drops_backend_message:
  "settled
     (run (burst [(call_me, Fulfilled (message_body ''jwt expired'')),
                  (call_create, Fulfilled (message_body ''jwt expired''))] @
            [RefreshSettled (respond 200 (token_body ''new'')),
             QueuedRetrySettled call_create (respond 500 (message_body ''Server exploded''))])
        (initial (Some ''old''))) = [(call_create, Rejected ''HTTP error! status: 500'')]
   \<and> plain_outcome (respond 500 (message_body ''Server exploded'')) = Rejected ''Server exploded''"
  by (simp add: api_defs generic_error_500)

section \<open>Properties of the session store\<close>

lemma api_call_login:
  "api_call bk ''/users/login'' w =
     (fst (bk ''/users/login'' (length (calls w))), w\<lparr>calls := calls w @ [''/users/login'']\<rparr>)"
  by (simp add: api_call_def eligible_def split: prod.splits)

lemma api_call_refresh:
  "api_call bk refresh_endpoint w =
     (fst (bk refresh_endpoint (length (calls w))), w\<lparr>calls := calls w @ [refresh_endpoint]\<rparr>)"
  by (simp add: api_call_def eligible_def refresh_endpoint_def split: prod.splits)

lemma login_failed_message: "login_error_message ''Login failed'' = ''Login failed''"
  by (simp add: login_error_message_def)

lemma getCurrentUser_isLoading: "isLoading (snd (getCurrentUser bk w)) = isLoading w"
  by (simp add: getCurrentUser_def api_call_def Let_def
      split: prod.splits settled.splits option.splits)

lemma refreshAuth_isLoading: "isLoading (snd (refreshAuth bk w)) = isLoading w"
  by (simp add: refreshAuth_def api_call_def split: prod.splits settled.splits option.splits)

lemma logout_isLoading: "isLoading (snd (logout bk w)) = isLoading w"
  by (simp add: logout_def logout_finally_def api_call_def
      split: prod.splits settled.splits option.splits)

lemma checkAuth_isLoading: "isLoading (snd (checkAuth bk w)) = isLoading w"
proof -
  have g: "isLoading w' = isLoading v" if "getCurrentUser bk v = (res, w')" for v res w'
    using getCurrentUser_isLoading [of bk v] that by simp
  have r: "isLoading w' = isLoading v" if "refreshAuth bk v = (res, w')" for v res w'
    using refreshAuth_isLoading [of bk v] that by simp
  show ?thesis
    by (auto simp: checkAuth_def checkAuth_catch_def
        split: prod.splits settled.splits option.splits dest!: g r)
qed

text \<open>
  \<open>login\<close>, \<open>signup\<close> and \<open>initializeAuth\<close> set the flag, and clear it when they return.
\<close>

lemma login_isLoading: "isLoading (snd (login bk w)) = (fst (login bk w) = None)"
  by (simp add: login_def api_call_def login_catch_def Let_def
      split: prod.splits settled.splits option.splits)

lemma signup_isLoading: "isLoading (snd (signup bk w)) = (fst (signup bk w) = None)"
  by (simp add: signup_def api_call_def Let_def split: prod.splits settled.splits option.splits)

lemma initializeAuth_isLoading:
  "isLoading (snd (initializeAuth bk w)) = (fst (initializeAuth bk w) = None)"
proof -
  have c: "isLoading w' = isLoading v" if "checkAuth bk v = (res, w')" for v res w'
    using checkAuth_isLoading [of bk v] that by simp
  have g: "isLoading w' = isLoading v" if "getCurrentUser bk v = (res, w')" for v res w'
    using getCurrentUser_isLoading [of bk v] that by simp
  show ?thesis
    by (auto simp: initializeAuth_def initializeAuth_finally_def Let_def
        split: prod.splits settled.splits option.splits dest!: c g)
qed

text \<open>Once the backend's logout call has settled, either way, \<open>logout\<close> cleans up.\<close>

lemma logout_clears_when_settled:
  "fst (bk ''/users/logout'' (length (calls w))) = Some out \<Longrightarrow>
   fst (logout bk w) = Some (Fulfilled ()) \<and> authToken (snd (logout bk w)) = None \<and>
   user (snd (logout bk w)) = None \<and> isAuthenticated (snd (logout bk w)) = False"
  by (auto simp: logout_def logout_finally_def api_call_def split: prod.splits settled.splits)

lemmas store_defs =
  always_def signed_out_def signed_in_def login_body_def guest_body_def admin_record_def
  guest_record_def tokenless_body_def message_body_def token_body_def project_user_def
  data_user_def data_accessToken_def truthy_def succeeded_def failed_def refresh_endpoint_def

text \<open>
  Claim C4. When the login call returns a body with a user object and a non-empty
  access token, \<open>login\<close> stores the projected profile, sets \<open>isAuthenticated\<close>, persists
  the token and returns \<open>{success: true, user}\<close>; the profile takes \<open>id\<close>, \<open>name\<close>,
  \<open>email\<close>, \<open>username\<close> and \<open>avatar\<close> from the record, and \<open>role\<close> too, which is
  \<open>user\<close> when the record has none. When the body has no user object, \<open>login\<close> returns a
  result whose \<open>success\<close> is false (with the error \<open>Login failed\<close>).
\<close>

theorem login_result:
  assumes "fst (bk ''/users/login'' (length (calls w))) = Some (Fulfilled response)"
  shows "(\<forall>d u tok. data response = Some d \<and> resp_user d = Some u \<and>
              accessToken d = Some tok \<and> tok \<noteq> [] \<longrightarrow>
            login bk w =
              (Some (Fulfilled \<lparr>success = True, result_user = Some (project_user u),
                 error = None, result_message = None\<rparr>),
               w\<lparr>authToken := Some tok, user := Some (project_user u), isAuthenticated := True,
                 isLoading := False, calls := calls w @ [''/users/login'']\<rparr>)
            \<and> id' (project_user u) = u_id u \<and> name (project_user u) = fullname u
            \<and> email (project_user u) = u_email u \<and> username (project_user u) = u_username u
            \<and> avatar (project_user u) = u_avatar u
            \<and> (u_role u = None \<longrightarrow> role (project_user u) = ''user'')
            \<and> (\<forall>ro. u_role u = Some ro \<and> ro \<noteq> [] \<longrightarrow> role (project_user u) = ro))
       \<and> (data_user response = None \<longrightarrow>
            login bk w =
              (Some (Fulfilled \<lparr>success = False, result_user = None,
                 error = Some ''Login failed'', result_message = None\<rparr>),
               w\<lparr>isLoading := False, calls := calls w @ [''/users/login'']\<rparr>))"
  using assms
  by (simp add: login_def api_call_login data_user_def data_accessToken_def truthy_def
      succeeded_def failed_def login_catch_def login_failed_message Let_def project_user_def)

theorem login_result_witness:
  "login (always (Fulfilled login_body)) signed_out =
     (Some (Fulfilled \<lparr>success = True,
        result_user = Some \<lparr>id' = Some ''u1'', name = Some ''A'', email = Some ''a@x.com'',
          username = Some ''a'', avatar = None, role = ''admin''\<rparr>,
        error = None, result_message = None\<rparr>),
      \<lparr>authToken = Some ''tok1'',
       user = Some \<lparr>id' = Some ''u1'', name = Some ''A'', email = Some ''a@x.com'',
          username = Some ''a'', avatar = None, role = ''admin''\<rparr>,
       isAuthenticated = True, isLoading = False, calls = [''/users/login'']\<rparr>)
   \<and> role (project_user guest_record) = ''user''
   \<and> fst (login (always (Fulfilled tokenless_body)) signed_out) =
       Some (Fulfilled \<lparr>success = False, result_user = None, error = Some ''Login failed'',
         result_message = None\<rparr>)"
proof -
  have a: "fst (always (Fulfilled b) ''/users/login'' (length (calls signed_out))) =
      Some (Fulfilled b)"
    for b by (simp add: always_def)
  from login_result [of "always (Fulfilled login_body)" signed_out login_body] a have
    "login (always (Fulfilled login_body)) signed_out =
     (Some (Fulfilled \<lparr>success = True, result_user = Some (project_user admin_record),
        error = None, result_message = None\<rparr>),
      signed_out\<lparr>authToken := Some ''tok1'', user := Some (project_user admin_record),
        isAuthenticated := True, isLoading := False,
        calls := calls signed_out @ [''/users/login'']\<rparr>)"
    by (simp add: login_body_def)
  moreover from login_result [of "always (Fulfilled guest_body)" signed_out guest_body] a have
    "role (project_user guest_record) = ''user''"
    by (simp add: guest_body_def guest_record_def)
  moreover from login_result [of "always (Fulfilled tokenless_body)" signed_out tokenless_body] a
  have
    "fst (login (always (Fulfilled tokenless_body)) signed_out) =
       Some (Fulfilled \<lparr>success = False, result_user = None, error = Some ''Login failed'',
         result_message = None\<rparr>)"
    by (simp add: tokenless_body_def data_user_def)
  ultimately show ?thesis
    by (simp add: signed_out_def admin_record_def project_user_def)
qed

text \<open>
  Claim C5. When the refresh call returns a non-empty access token, \<open>refreshAuth\<close>
  persists the token and returns \<open>{success: true}\<close>. When the refresh call throws, the
  persisted token is removed, \<open>user\<close> and \<open>isAuthenticated\<close> are reset and the result is
  \<open>{success: false}\<close>. When the call returns a body without an access token, the result
  is \<open>{success: false}\<close> and the persisted token and the session state stay as they were.
\<close>

theorem refreshAuth_result:
  "(\<forall>response tok. fst (bk refresh_endpoint (length (calls w))) = Some (Fulfilled response) \<and>
        data_accessToken response = Some tok \<and> tok \<noteq> [] \<longrightarrow>
      refreshAuth bk w =
        (Some (Fulfilled succeeded),
         w\<lparr>authToken := Some tok, calls := calls w @ [refresh_endpoint]\<rparr>))
   \<and> (\<forall>e. fst (bk refresh_endpoint (length (calls w))) = Some (Rejected e) \<longrightarrow>
      refreshAuth bk w =
        (Some (Fulfilled failed),
         w\<lparr>authToken := None, user := None, isAuthenticated := False,
           calls := calls w @ [refresh_endpoint]\<rparr>))
   \<and> (\<forall>response. fst (bk refresh_endpoint (length (calls w))) = Some (Fulfilled response) \<and>
        \<not> truthy (data_accessToken response) \<longrightarrow>
      refreshAuth bk w =
        (Some (Fulfilled failed), w\<lparr>calls := calls w @ [refresh_endpoint]\<rparr>))"
  by (simp add: refreshAuth_def api_call_refresh truthy_def)

theorem refreshAuth_result_witness:
  "refreshAuth (always (Fulfilled (token_body ''new''))) signed_in =
     (Some (Fulfilled succeeded),
      signed_in\<lparr>authToken := Some ''new'', calls := [''/users/refresh-token'']\<rparr>)
   \<and> refreshAuth (always (Rejected ''Refresh token expired'')) signed_in =
     (Some (Fulfilled failed),
      signed_in\<lparr>authToken := None, user := None, isAuthenticated := False,
        calls := [''/users/refresh-token'']\<rparr>)
   \<and> refreshAuth (always (Fulfilled empty_body)) signed_in =
     (Some (Fulfilled failed), signed_in\<lparr>calls := [''/users/refresh-token'']\<rparr>)"
proof -
  have c: "calls signed_in = []"
    by (simp add: signed_in_def)
  have a: "fst (always out refresh_endpoint (length (calls signed_in))) = Some out" for out
    by (simp add: always_def)
  have t: "data_accessToken (token_body ''new'') = Some ''new''"
    and n: "\<not> truthy (data_accessToken empty_body)"
    by (simp_all add: token_body_def empty_body_def data_accessToken_def truthy_def)
  from refreshAuth_result [of "always (Fulfilled (token_body ''new''))" signed_in] a t
  have "refreshAuth (always (Fulfilled (token_body ''new''))) signed_in =
     (Some (Fulfilled succeeded),
      signed_in\<lparr>authToken := Some ''new'', calls := calls signed_in @ [refresh_endpoint]\<rparr>)"
    by simp
  moreover
  from refreshAuth_result [of "always (Rejected ''Refresh token expired'')" signed_in] a
  have "refreshAuth (always (Rejected ''Refresh token expired'')) signed_in =
     (Some (Fulfilled failed),
      signed_in\<lparr>authToken := None, user := None, isAuthenticated := False,
        calls := calls signed_in @ [refresh_endpoint]\<rparr>)"
    by simp
  moreover
  from refreshAuth_result [of "always (Fulfilled empty_body)" signed_in] a n
  have "refreshAuth (always (Fulfilled empty_body)) signed_in =
     (Some (Fulfilled failed), signed_in\<lparr>calls := calls signed_in @ [refresh_endpoint]\<rparr>)"
    by simp
  ultimately show ?thesis
    by (simp add: c refresh_endpoint_def)
qed

theorem refreshAuth_without_token_keeps_session:
  "fst (refreshAuth (always (Fulfilled tokenless_body)) signed_in) = Some (Fulfilled failed)
   \<and> authToken (snd (refreshAuth (always (Fulfilled tokenless_body)) signed_in)) = Some ''old''
   \<and> isAuthenticated (snd (refreshAuth (always (Fulfilled tokenless_body)) signed_in)) = True
   \<and> user (snd (refreshAuth (always (Fulfilled tokenless_body)) signed_in)) =
       Some (project_user admin_record)"
  by (simp add: refreshAuth_def api_call_def eligible_def store_defs)

text \<open>
  Claim C6. A logout is called while another call owns a refresh; its request receives
  a 401 and is queued, and the refresh call returns a 2xx body without an access token.
  Every \<open>fetch\<close> has been answered and the service is idle, yet the logout call stays in
  \<open>failedQueue\<close> and is never settled: \<open>logout\<close> never returns, its \<open>finally\<close> block
  never runs, and the token and the session stay as they were.
\<close>

theorem logout_never_returns_when_queued:
  "fetched logout_queued =
     [(''/users/me'', Some ''old''), (''/users/logout'', Some ''old''),
      (''/users/refresh-token'', Some ''old'')]
   \<and> isRefreshing logout_queued = False
   \<and> owner logout_queued = None
   \<and> failedQueue logout_queued = [call_logout]
   \<and> settled logout_queued = [(call_me, Rejected ''jwt expired'')]
   \<and> logout (service_backend logout_queued) signed_in =
       (None, signed_in\<lparr>calls := [''/users/logout'']\<rparr>)
   \<and> authToken (snd (logout (service_backend logout_queued) signed_in)) = Some ''old''
   \<and> isAuthenticated (snd (logout (service_backend logout_queued) signed_in)) = True"
proof -
  have q: "logout_queued =
      \<lparr>authToken = Some ''old'', isRefreshing = False, failedQueue = [call_logout],
       navigations = [],
       fetched = [(''/users/me'', Some ''old''), (''/users/logout'', Some ''old''),
         (''/users/refresh-token'', Some ''old'')],
       woken = [], owner = None, settled = [(call_me, Rejected ''jwt expired'')]\<rparr>"
    by (simp add: logout_queued_def call_logout_def api_defs)
  have b: "service_backend logout_queued ''/users/logout'' 0 = (None, Stored ''old'')"
    by (simp add: q service_backend_def call_me_def)
  have l: "logout (service_backend logout_queued) signed_in =
      (None, signed_in\<lparr>calls := [''/users/logout'']\<rparr>)"
    by (simp add: logout_def api_call_def b apply_effect_def signed_in_def eligible_def)
  show ?thesis
    by (simp add: l) (simp add: q signed_in_def)
qed

text \<open>
  Claim C7. With no persisted token (or an empty one), \<open>checkAuth\<close> returns
  \<open>{isAuthenticated: false}\<close> and changes nothing: in particular it calls no endpoint.
\<close>

theorem checkAuth_without_token:
  "\<not> truthy (authToken w) \<Longrightarrow>
   checkAuth bk w = (Some (Fulfilled False), w) \<and> calls (snd (checkAuth bk w)) = calls w"
  by (simp add: checkAuth_def)

theorem checkAuth_without_token_witness:
  "checkAuth (always (Fulfilled login_body)) signed_out = (Some (Fulfilled False), signed_out)
   \<and> calls (snd (checkAuth (always (Fulfilled login_body)) signed_out)) = []"
proof -
  have "\<not> truthy (authToken signed_out)"
    by (simp add: signed_out_def truthy_def)
  from checkAuth_without_token [OF this, of "always (Fulfilled login_body)"] show ?thesis
    by (simp add: signed_out_def)
qed

text \<open>
  Claim C8. When the login call fails with a message that contains
  \<open>Invalid user credentials\<close> and does not contain \<open>User does not exist\<close>, the returned
  error is \<open>Invalid username or password.\<close>; when the message contains none of the four
  known phrases, the returned error is the message itself.
\<close>

theorem login_error_mapping:
  assumes "fst (bk ''/users/login'' (length (calls w))) = Some (Rejected m)"
  shows "(str_includes m ''Invalid user credentials'' \<and> \<not> str_includes m ''User does not exist'' \<longrightarrow>
           fst (login bk w) =
             Some (Fulfilled \<lparr>success = False, result_user = None,
               error = Some ''Invalid username or password.'', result_message = None\<rparr>))
       \<and> (\<not> str_includes m ''User does not exist'' \<and> \<not> str_includes m ''Invalid user credentials'' \<and>
          \<not> str_includes m ''Account is deactivated'' \<and> \<not> str_includes m ''Too many requests'' \<longrightarrow>
           fst (login bk w) =
             Some (Fulfilled \<lparr>success = False, result_user = None, error = Some m,
               result_message = None\<rparr>))"
  using assms
  by (simp add: login_def api_call_login login_catch_def login_error_message_def failed_def)

theorem login_error_mapping_witness:
  "fst (login (always (Rejected ''Invalid user credentials'')) signed_out) =
     Some (Fulfilled \<lparr>success = False, result_user = None,
       error = Some ''Invalid username or password.'', result_message = None\<rparr>)
   \<and> fst (login (always (Rejected ''Failed to fetch'')) signed_out) =
     Some (Fulfilled \<lparr>success = False, result_user = None, error = Some ''Failed to fetch'',
       result_message = None\<rparr>)"
proof -
  have a: "fst (always (Rejected m) ''/users/login'' (length (calls signed_out))) =
      Some (Rejected m)"
    for m by (simp add: always_def)
  from login_error_mapping [of "always (Rejected ''Invalid user credentials'')" signed_out
      "''Invalid user credentials''"] a
  have
    "fst (login (always (Rejected ''Invalid user credentials'')) signed_out) =
     Some (Fulfilled \<lparr>success = False, result_user = None,
       error = Some ''Invalid username or password.'', result_message = None\<rparr>)"
    by simp
  moreover
  from login_error_mapping [of "always (Rejected ''Failed to fetch'')" signed_out
      "''Failed to fetch''"] a
  have
    "fst (login (always (Rejected ''Failed to fetch'')) signed_out) =
     Some (Fulfilled \<lparr>success = False, result_user = None, error = Some ''Failed to fetch'',
       result_message = None\<rparr>)"
    by simp
  ultimately show ?thesis
    by simp
qed

theorem login_error_precedence:
  "str_includes ''User does not exist. Invalid user credentials'' ''Invalid user credentials''
   \<and> fst (login (always (Rejected ''User does not exist. Invalid user credentials'')) signed_out) =
     Some (Fulfilled \<lparr>success = False, result_user = None,
       error = Some ''User not found. Please check your credentials.'', result_message = None\<rparr>)"
  by (simp add: login_def api_call_login login_catch_def login_error_message_def failed_def
      always_def)

text \<open>
  Claim C10. \<open>logout\<close>, \<open>refreshAuth\<close>, \<open>getCurrentUser\<close>, \<open>checkAuth\<close> and \<open>setUser\<close>
  leave \<open>isLoading\<close> as it was, for every state and backend. A \<open>refreshAuth\<close> whose
  refresh call throws resets \<open>user\<close> and \<open>isAuthenticated\<close> and leaves \<open>isLoading\<close>; a
  \<open>refreshAuth\<close> that fails because the response has no access token changes none of
  the three. \<open>login\<close>, \<open>signup\<close> and \<open>initializeAuth\<close> write the flag: it is set while
  they are suspended and cleared once they have returned.
\<close>

theorem isLoading_frame:
  "isLoading (snd (logout bk w)) = isLoading w
   \<and> isLoading (snd (refreshAuth bk w)) = isLoading w
   \<and> isLoading (snd (getCurrentUser bk w)) = isLoading w
   \<and> isLoading (snd (checkAuth bk w)) = isLoading w
   \<and> isLoading (setUser u w) = isLoading w
   \<and> (\<forall>e. fst (bk refresh_endpoint (length (calls w))) = Some (Rejected e) \<longrightarrow>
        fst (refreshAuth bk w) = Some (Fulfilled failed)
        \<and> user (snd (refreshAuth bk w)) = None
        \<and> isAuthenticated (snd (refreshAuth bk w)) = False
        \<and> isLoading (snd (refreshAuth bk w)) = isLoading w)
   \<and> (\<forall>response. fst (bk refresh_endpoint (length (calls w))) = Some (Fulfilled response)
          \<and> \<not> truthy (data_accessToken response) \<longrightarrow>
        fst (refreshAuth bk w) = Some (Fulfilled failed)
        \<and> user (snd (refreshAuth bk w)) = user w
        \<and> isAuthenticated (snd (refreshAuth bk w)) = isAuthenticated w
        \<and> isLoading (snd (refreshAuth bk w)) = isLoading w)
   \<and> isLoading (snd (login bk w)) = (fst (login bk w) = None)
   \<and> isLoading (snd (signup bk w)) = (fst (signup bk w) = None)
   \<and> isLoading (snd (initializeAuth bk w)) = (fst (initializeAuth bk w) = None)"
proof -
  have thrown: "fst (refreshAuth bk w) = Some (Fulfilled failed)
      \<and> user (snd (refreshAuth bk w)) = None \<and> isAuthenticated (snd (refreshAuth bk w)) = False"
    if "fst (bk refresh_endpoint (length (calls w))) = Some (Rejected e)" for e
    using that by (simp add: refreshAuth_def api_call_refresh)
  have tokenless: "fst (refreshAuth bk w) = Some (Fulfilled failed)
      \<and> user (snd (refreshAuth bk w)) = user w
      \<and> isAuthenticated (snd (refreshAuth bk w)) = isAuthenticated w"
    if "fst (bk refresh_endpoint (length (calls w))) = Some (Fulfilled response)"
      and "\<not> truthy (data_accessToken response)" for response
    using that by (simp add: refreshAuth_def api_call_refresh)
  show ?thesis
    using thrown tokenless login_isLoading [of bk w] signup_isLoading [of bk w]
      initializeAuth_isLoading [of bk w]
    by (simp add: logout_isLoading refreshAuth_isLoading getCurrentUser_isLoading
        checkAuth_isLoading setUser_def)
qed

theorem isLoading_frame_witness:
  "isLoading (snd (refreshAuth (always (Rejected ''Refresh token expired'')) signed_in)) = True
   \<and> user (snd (refreshAuth (always (Rejected ''Refresh token expired'')) signed_in)) = None
   \<and> isAuthenticated (snd (refreshAuth (always (Rejected ''Refresh token expired'')) signed_in)) = False
   \<and> isLoading (snd (refreshAuth (always (Fulfilled empty_body)) signed_in)) = True
   \<and> user (snd (refreshAuth (always (Fulfilled empty_body)) signed_in)) =
       Some (project_user admin_record)
   \<and> isAuthenticated (snd (refreshAuth (always (Fulfilled empty_body)) signed_in)) = True
   \<and> isLoading (snd (logout (always (Rejected ''Refresh token expired'')) signed_in)) = True"
proof -
  have a: "fst (always out refresh_endpoint (length (calls signed_in))) = Some out" for out
    by (simp add: always_def)
  have n: "\<not> truthy (data_accessToken empty_body)"
    by (simp add: empty_body_def data_accessToken_def truthy_def)
  have l: "isLoading signed_in = True" "isAuthenticated signed_in = True"
    "user signed_in = Some (project_user admin_record)"
    by (simp_all add: signed_in_def)
  from isLoading_frame [of "always (Rejected ''Refresh token expired'')" signed_in] a l
  have "isLoading (snd (refreshAuth (always (Rejected ''Refresh token expired'')) signed_in)) = True
   \<and> user (snd (refreshAuth (always (Rejected ''Refresh token expired'')) signed_in)) = None
   \<and> isAuthenticated (snd (refreshAuth (always (Rejected ''Refresh token expired'')) signed_in)) = False
   \<and> isLoading (snd (logout (always (Rejected ''Refresh token expired'')) signed_in)) = True"
    by simp
  moreover
  from isLoading_frame [of "always (Fulfilled empty_body)" signed_in] a n l
  have "isLoading (snd (refreshAuth (always (Fulfilled empty_body)) signed_in)) = True
   \<and> user (snd (refreshAuth (always (Fulfilled empty_body)) signed_in)) =
       Some (project_user admin_record)
   \<and> isAuthenticated (snd (refreshAuth (always (Fulfilled empty_body)) signed_in)) = True"
    by simp
  ultimately show ?thesis
    by simp
qed

theorem refreshAuth_failure_without_reset:
  "fst (refreshAuth (always (Fulfilled empty_body)) signed_in) =
     Some (Fulfilled \<lparr>success = False, result_user = None, error = None, result_message = None\<rparr>)
   \<and> user (snd (refreshAuth (always (Fulfilled empty_body)) signed_in)) =
       Some \<lparr>id' = Some ''u1'', name = Some ''A'', email = Some ''a@x.com'',
         username = Some ''a'', avatar = None, role = ''admin''\<rparr>
   \<and> isAuthenticated (snd (refreshAuth (always (Fulfilled empty_body)) signed_in)) = True"
  by (simp add: refreshAuth_def api_call_def eligible_def empty_body_def store_defs)

end
